theory Spec2Isabelle
  imports Main "HOL-Library.Multiset"
begin

section \<open>The insert mutation field of a table (createInsertMutationField.js)\<close>

text \<open>
  A shallow embedding of \<^verbatim>\<open>src/graphql/mutation/createInsertMutationField.js\<close>:
  the input type builder \<^verbatim>\<open>createInputType\<close>, the payload type builder
  \<^verbatim>\<open>createPayloadType\<close>, the cursor resolver \<^verbatim>\<open>resolveNewEdge\<close> and the
  insert resolver \<^verbatim>\<open>resolveInsert\<close>.
\<close>

subsection \<open>Table and column metadata\<close>

text \<open>
  GraphQL types, as far as the file looks at them: \<^verbatim>\<open>getNullableType\<close> of the graphql
  library strips one outer \<^verbatim>\<open>GraphQLNonNull\<close> wrapper and returns any other type as it is.
\<close>

datatype gql_type =
    GraphQLNamed string
  | GraphQLList gql_type
  | GraphQLNonNull gql_type

fun getNullableType :: "gql_type \<Rightarrow> gql_type" where
  "getNullableType (GraphQLNonNull t) = t"
| "getNullableType t = t"

text \<open>
  The metadata objects are read only through the properties and methods below; each
  method without arguments is a field holding what the method returns.
\<close>

record column =
  column_name :: string
  column_getFieldName :: string
  column_hasDefault :: bool
  column_description :: "string option"

record table =
  getIdentifier :: string
  getTypeName :: string
  getMarkdownTypeName :: string
  getFieldName :: string
  getColumns :: "column list"
  getPrimaryKeys :: "column list"

subsection \<open>JavaScript values and objects\<close>

text \<open>
  A property key is a string or the symbol \<^verbatim>\<open>$$rowTable\<close> of symbols.js, which no string
  equals. Values are the JSON-like values the GraphQL engine and the database client
  hand over, a table (the value stored under \<^verbatim>\<open>$$rowTable\<close>), and the value of a
  property of \<^verbatim>\<open>Object.prototype\<close>, named by the property: a built-in function, or
  the prototype object itself for \<^verbatim>\<open>__proto__\<close>. Numbers are the integers and NaN: of a
  number the file only asks whether it is truthy.
\<close>

datatype pkey = StrKey string | RowTableSymbol

datatype jsval =
    JSUndefined
  | JSNull
  | JSBool bool
  | JSNum int
  | JSNaN
  | JSStr string
  | JSArr "jsval list"
  | JSObj "(pkey \<times> jsval) list"
  | JSTable table
  | JSInherited string

type_synonym obj = "(pkey \<times> jsval) list"

text \<open>JavaScript's ToBoolean: what \<^verbatim>\<open>if (v)\<close>, \<^verbatim>\<open>v ? a : b\<close> and \<^verbatim>\<open>filter(v => v)\<close> test.\<close>

fun truthy :: "jsval \<Rightarrow> bool" where
  "truthy JSUndefined = False"
| "truthy JSNull = False"
| "truthy (JSBool b) = b"
| "truthy (JSNum n) = (n \<noteq> 0)"
| "truthy JSNaN = False"
| "truthy (JSStr s) = (s \<noteq> [])"
| "truthy (JSArr xs) = True"
| "truthy (JSObj kvs) = True"
| "truthy (JSTable t) = True"
| "truthy (JSInherited s) = True"

text \<open>
  An object is the list of its own properties in insertion order; the objects here (the
  input object of the engine, the rows of the database client) are plain objects, whose
  prototype is \<^verbatim>\<open>Object.prototype\<close>. \<^verbatim>\<open>o[k]\<close> reads an own property, else the property
  inherited from \<^verbatim>\<open>Object.prototype\<close>, and is \<^verbatim>\<open>undefined\<close> when there is neither.
  \<^verbatim>\<open>o[k] = v\<close> replaces the value of an existing own property where it stands and
  appends a new one. (JavaScript enumerates integer-like keys first; the general
  statements below do not depend on the order of the keys.)
\<close>

definition object_prototype_names :: "string list" where
  "object_prototype_names =
     [''constructor'', ''toString'', ''toLocaleString'', ''valueOf'', ''hasOwnProperty'',
      ''isPrototypeOf'', ''propertyIsEnumerable'', ''__proto__'', ''__defineGetter__'',
      ''__defineSetter__'', ''__lookupGetter__'', ''__lookupSetter__'']"

fun inherited :: "pkey \<Rightarrow> jsval" where
  "inherited (StrKey s) = (if s \<in> set object_prototype_names then JSInherited s else JSUndefined)"
| "inherited RowTableSymbol = JSUndefined"

definition obj_get :: "obj \<Rightarrow> pkey \<Rightarrow> jsval" where
  "obj_get ob k = (case map_of ob k of None \<Rightarrow> inherited k | Some v \<Rightarrow> v)"

fun obj_set :: "('k \<times> 'v) list \<Rightarrow> 'k \<Rightarrow> 'v \<Rightarrow> ('k \<times> 'v) list" where
  "obj_set [] k v = [(k, v)]"
| "obj_set ((k', v') # kvs) k v =
     (if k' = k then (k, v) # kvs else (k', v') # obj_set kvs k v)"

text \<open>
  lodash's \<^verbatim>\<open>fromPairs\<close> assigns the pairs to a new object from left to right, and the
  spread \<^verbatim>\<open>{...src, rest}\<close> copies the own properties of \<^verbatim>\<open>src\<close> in order into the
  object under construction.
\<close>

definition obj_assign :: "('k \<times> 'v) list \<Rightarrow> ('k \<times> 'v) list \<Rightarrow> ('k \<times> 'v) list" where
  "obj_assign target src = foldl (\<lambda>ob (k, v). obj_set ob k v) target src"

definition fromPairs :: "('k \<times> 'v) list \<Rightarrow> ('k \<times> 'v) list" where
  "fromPairs pairs = obj_assign [] pairs"

text \<open>\<^verbatim>\<open>Array.prototype.join\<close> on an array of strings.\<close>

fun join :: "string \<Rightarrow> string list \<Rightarrow> string" where
  "join sep [] = []"
| "join sep [x] = x"
| "join sep (x # y # ys) = x @ sep @ join sep (y # ys)"

subsection \<open>Errors and the store\<close>

text \<open>
  A resolver throws a \<^verbatim>\<open>TypeError\<close> when it reads a property of \<^verbatim>\<open>null\<close>, and
  a failure of the database client propagates as it is.
\<close>

datatype error = TypeError | ClientError string

text \<open>
  The row objects the database client returns are mutated in place and handed on by
  reference, so they live in a store: an address holds an object.
\<close>

type_synonym addr = nat
type_synonym heap = "addr \<Rightarrow> obj"

text \<open>\<^verbatim>\<open>Array.prototype.map\<close> with a callback that may throw: the first throw ends it.\<close>

fun mapE :: "('a \<Rightarrow> error + 'b) \<Rightarrow> 'a list \<Rightarrow> error + 'b list" where
  "mapE f [] = Inr []"
| "mapE f (x # xs) =
     (case f x of
        Inl e \<Rightarrow> Inl e
      | Inr y \<Rightarrow> (case mapE f xs of Inl e \<Rightarrow> Inl e | Inr ys \<Rightarrow> Inr (y # ys)))"

subsection \<open>createInputType\<close>

record field_config =
  field_type :: gql_type
  field_description :: "string option"

record input_type =
  input_name :: string
  input_description :: string
  input_fields :: "(string \<times> field_config) list"

text \<open>
  \<^verbatim>\<open>getColumnType\<close> (getColumnType.js) and the constant \<^verbatim>\<open>inputClientMutationId\<close>
  (clientMutationId.js) are imported from files that are not part of the sources; both
  are parameters.
\<close>

definition createInputType ::
  "(column \<Rightarrow> gql_type) \<Rightarrow> field_config \<Rightarrow> table \<Rightarrow> input_type" where
  "createInputType getColumnType inputClientMutationId table =
     \<lparr> input_name = ''Insert'' @ getTypeName table @ ''Input'',
       input_description = ''The '' @ getMarkdownTypeName table @ '' to insert.'',
       input_fields =
         obj_set
           (obj_assign []
              (fromPairs
                 (map (\<lambda>column.
                         (column_getFieldName column,
                          \<lparr> field_type =
                              (if column_hasDefault column then getNullableType else id)
                                (getColumnType column),
                            field_description = column_description column \<rparr>))
                      (getColumns table))))
           ''clientMutationId'' inputClientMutationId \<rparr>"

subsection \<open>createPayloadType and resolveNewEdge\<close>

text \<open>
  The payload fields: the row field, the edge field, and the fields of
  \<^verbatim>\<open>getPayloadFields(table.schema)\<close> (getPayloadFields.js, a parameter). The object
  literal writes them in this order under their keys.
\<close>

datatype 'f payload_field = OutputField | EdgeField | SchemaPayloadField 'f

record 'f payload_type =
  payload_name :: string
  payload_description :: string
  payload_fields :: "(string \<times> 'f payload_field) list"

definition createPayloadType :: "(string \<times> 'f) list \<Rightarrow> table \<Rightarrow> 'f payload_type" where
  "createPayloadType getPayloadFields table =
     \<lparr> payload_name = ''Insert'' @ getTypeName table @ ''Payload'',
       payload_description =
         ''Contains the '' @ getMarkdownTypeName table @ '' node inserted by the mutation.'',
       payload_fields =
         obj_assign
           (obj_set
              (obj_set [] (getFieldName table) OutputField)
              (getFieldName table @ ''Edge'') EdgeField)
           (map (\<lambda>(k, f). (k, SchemaPayloadField f)) getPayloadFields) \<rparr>"

text \<open>
  What \<^verbatim>\<open>resolveInsert\<close> resolves to: \<^verbatim>\<open>output\<close> is \<^verbatim>\<open>null\<close> (\<open>None\<close>) or the
  row object (its address), \<^verbatim>\<open>clientMutationId\<close> is a value.
\<close>

record insert_result =
  res_output :: "addr option"
  res_clientMutationId :: jsval

text \<open>
  The arguments of the edge field: \<^verbatim>\<open>orderBy\<close> is absent (\<open>None\<close>) or a value of the
  table's ordering enum, a string.
\<close>

record edge_args =
  args_orderBy :: "string option"

record edge =
  edge_cursor :: jsval
  edge_node :: "addr option"

text \<open>\<^verbatim>\<open>output[k]\<close>: reading a property of \<^verbatim>\<open>null\<close> throws.\<close>

definition get_property :: "heap \<Rightarrow> addr option \<Rightarrow> string \<Rightarrow> error + jsval" where
  "get_property h out k =
     (case out of
        None \<Rightarrow> Inl TypeError
      | Some a \<Rightarrow> Inr (obj_get (h a) (StrKey k)))"

text \<open>The else branch of \<^verbatim>\<open>resolveNewEdge\<close>: the cursor of the primary keys.\<close>

definition primaryKeyCursor :: "table \<Rightarrow> heap \<Rightarrow> addr option \<Rightarrow> error + jsval" where
  "primaryKeyCursor table h out =
     (case mapE (\<lambda>column. get_property h out (column_name column)) (getPrimaryKeys table) of
        Inl e \<Rightarrow> Inl e
      | Inr vs \<Rightarrow> Inr (JSArr vs))"

text \<open>
  \<^verbatim>\<open>if (orderBy)\<close> tests the argument for truthiness: an absent argument and the empty
  string both take the else branch.
\<close>

definition resolveNewEdge ::
  "table \<Rightarrow> heap \<Rightarrow> insert_result \<Rightarrow> edge_args \<Rightarrow> error + edge" where
  "resolveNewEdge table h source args =
     (let out = res_output source in
      case (case args_orderBy args of
              None \<Rightarrow> primaryKeyCursor table h out
            | Some orderBy \<Rightarrow>
                if orderBy \<noteq> [] then get_property h out orderBy
                else primaryKeyCursor table h out) of
        Inl e \<Rightarrow> Inl e
      | Inr c \<Rightarrow> Inr \<lparr> edge_cursor = c, edge_node = out \<rparr>)"

subsection \<open>The SQL statement builder\<close>

text \<open>
  SQLBuilder.js is not part of the sources. What \<^verbatim>\<open>resolveInsert\<close> does with a builder
  is a chain of \<^verbatim>\<open>add\<close> calls on a new one, so a builder is modelled as the sequence of
  these calls, each a text fragment with the values to bind (none when the call passes
  no values).
\<close>

type_synonym sql_builder = "(string \<times> jsval list) list"

definition SQLBuilder_new :: sql_builder where
  "SQLBuilder_new = []"

definition SQLBuilder_add :: "sql_builder \<Rightarrow> string \<Rightarrow> jsval list \<Rightarrow> sql_builder" where
  "SQLBuilder_add b fragment vals = b @ [(fragment, vals)]"






subsection \<open>resolveInsert\<close>

text \<open>
  The arguments of the mutation field (\<^verbatim>\<open>input\<close> is a non-null input object) and the
  context, of which \<^verbatim>\<open>client\<close> is read. Both records are extensible: the extension
  stands for every other property. \<^verbatim>\<open>client.queryAsync\<close> takes the builder and
  fails, or returns the rows it created in the store. The pattern \<^verbatim>\<open>{ rows: [row] }\<close>
  binds the first row, an object and so truthy, or \<^verbatim>\<open>undefined\<close> when there is none.
  The exported \<^verbatim>\<open>createInsertMutationField\<close> puts the payload type, the non-null input
  type and this resolver together.
\<close>

record mutation_args =
  args_input :: obj

record resolver_context =
  ctx_client :: "sql_builder \<Rightarrow> heap \<Rightarrow> error + (addr list \<times> heap)"

definition valueEntries :: "column list \<Rightarrow> obj \<Rightarrow> (column \<times> jsval) list" where
  "valueEntries columns inp =
     filter (\<lambda>(column, v). truthy v)
       (map (\<lambda>column. (column, obj_get inp (StrKey (column_getFieldName column)))) columns)"

text \<open>The builder passed to \<^verbatim>\<open>client.queryAsync\<close>.\<close>

definition insertStatement :: "table \<Rightarrow> (column \<times> jsval) list \<Rightarrow> sql_builder" where
  "insertStatement table ves =
     SQLBuilder_add
       (SQLBuilder_add
          (SQLBuilder_add
             (SQLBuilder_add
                (SQLBuilder_add SQLBuilder_new (''insert into '' @ getIdentifier table) [])
                (''('' @ join '', '' (map (\<lambda>(column, v). [CHR 0x22] @ column_name column @ [CHR 0x22]) ves)
                   @ '')'') [])
             ''values'' [])
          (''('' @ join '', '' (map (\<lambda>_. ''$'') ves) @ '')'') (map (\<lambda>(column, v). v) ves))
       ''returning *'' []"

definition resolveInsert ::
  "table \<Rightarrow> 's \<Rightarrow> 'a mutation_args_scheme \<Rightarrow> 'c resolver_context_scheme \<Rightarrow> heap
     \<Rightarrow> error + (insert_result \<times> heap)" where
  "resolveInsert table source args ctx h =
     (let columns = getColumns table;
          inp = args_input args;
          clientMutationId = obj_get inp (StrKey ''clientMutationId'');
          ves = valueEntries columns inp
      in case ctx_client ctx (insertStatement table ves) h of
           Inl e \<Rightarrow> Inl e
         | Inr (rows, h1) \<Rightarrow>
             (case rows of
                [] \<Rightarrow>
                  Inr (\<lparr> res_output = None, res_clientMutationId = clientMutationId \<rparr>, h1)
              | row # _ \<Rightarrow>
                  Inr (\<lparr> res_output = Some row, res_clientMutationId = clientMutationId \<rparr>,
                       h1(row := obj_set (h1 row) RowTableSymbol (JSTable table)))))"

subsection \<open>Example tables, inputs and rows\<close>

text \<open>
  The table of the scenarios: \<^verbatim>\<open>users\<close> with the columns \<^verbatim>\<open>id\<close> (which has a default),
  \<^verbatim>\<open>name\<close> and \<^verbatim>\<open>email\<close>, and the primary key \<^verbatim>\<open>id\<close>.
\<close>

definition id_column :: column where
  "id_column =
     \<lparr> column_name = ''id'', column_getFieldName = ''id'', column_hasDefault = True,
       column_description = None \<rparr>"

definition name_column :: column where
  "name_column =
     \<lparr> column_name = ''name'', column_getFieldName = ''name'', column_hasDefault = False,
       column_description = None \<rparr>"

definition email_column :: column where
  "email_column =
     \<lparr> column_name = ''email'', column_getFieldName = ''email'', column_hasDefault = False,
       column_description = None \<rparr>"

definition users_table :: table where
  "users_table =
     \<lparr> getIdentifier = ''users'', getTypeName = ''User'', getMarkdownTypeName = ''User'',
       getFieldName = ''user'', getColumns = [id_column, name_column, email_column],
       getPrimaryKeys = [id_column] \<rparr>"

definition alice_input :: obj where
  "alice_input = [(StrKey ''name'', JSStr ''Alice''), (StrKey ''email'', JSStr ''a@x.com'')]"

text \<open>An input that carries a client mutation id as well.\<close>

definition bob_input :: obj where
  "bob_input =
     [(StrKey ''name'', JSStr ''Bob''), (StrKey ''clientMutationId'', JSStr ''m-1'')]"


text \<open>A store whose address 0 holds the row of scenarios B and C.\<close>

definition created_row :: obj where
  "created_row = [(StrKey ''id'', JSNum 5), (StrKey ''createdAt'', JSStr ''2020-01-01'')]"

definition row_heap :: heap where
  "row_heap = (\<lambda>_. [])(0 := created_row)"

text \<open>
  A table whose primary-key column has the SQL name \<^verbatim>\<open>post_id\<close> and the field name
  \<^verbatim>\<open>postId\<close>, and a store whose address 0 holds a row of it, keyed by SQL names.
\<close>

definition post_id_column :: column where
  "post_id_column =
     \<lparr> column_name = ''post_id'', column_getFieldName = ''postId'', column_hasDefault = True,
       column_description = None \<rparr>"

definition posts_table :: table where
  "posts_table =
     \<lparr> getIdentifier = ''posts'', getTypeName = ''Post'', getMarkdownTypeName = ''Post'',
       getFieldName = ''post'', getColumns = [post_id_column], getPrimaryKeys = [post_id_column] \<rparr>"

definition post_heap :: heap where
  "post_heap = (\<lambda>_. [])(0 := [(StrKey ''post_id'', JSNum 7)])"

text \<open>
  A table with a column \<^verbatim>\<open>client_mutation_id\<close>, whose field name is
  \<^verbatim>\<open>clientMutationId\<close>; a column type and a \<^verbatim>\<open>clientMutationId\<close> field to build input
  types with.
\<close>

definition client_mutation_id_column :: column where
  "client_mutation_id_column =
     \<lparr> column_name = ''client_mutation_id'', column_getFieldName = ''clientMutationId'',
       column_hasDefault = False, column_description = None \<rparr>"

definition tokens_table :: table where
  "tokens_table =
     \<lparr> getIdentifier = ''tokens'', getTypeName = ''Token'', getMarkdownTypeName = ''Token'',
       getFieldName = ''token'', getColumns = [id_column, client_mutation_id_column],
       getPrimaryKeys = [id_column] \<rparr>"

definition text_column_type :: "column \<Rightarrow> gql_type" where
  "text_column_type column = GraphQLNonNull (GraphQLNamed ''String'')"

definition string_mutation_id :: field_config where
  "string_mutation_id = \<lparr> field_type = GraphQLNamed ''String'', field_description = None \<rparr>"

text \<open>The same input with another client mutation id.\<close>

definition bob_input_again :: obj where
  "bob_input_again =
     [(StrKey ''name'', JSStr ''Bob''), (StrKey ''clientMutationId'', JSStr ''m-2'')]"







text \<open>Inputs for the table with the column \<^verbatim>\<open>client_mutation_id\<close>.\<close>

definition token_input :: obj where
  "token_input = [(StrKey ''clientMutationId'', JSStr ''m-1'')]"

definition token_input_empty :: obj where
  "token_input_empty = [(StrKey ''clientMutationId'', JSStr [])]"

text \<open>Database clients that return no row, and the row at address 0 of the store.\<close>

definition empty_client :: "unit resolver_context_scheme" where
  "empty_client = \<lparr> ctx_client = (\<lambda>q h. Inr ([], h)) \<rparr>"

definition one_row_client :: "unit resolver_context_scheme" where
  "one_row_client = \<lparr> ctx_client = (\<lambda>q h. Inr ([0], h)) \<rparr>"

section \<open>Properties\<close>

subsection \<open>Objects, the filter and the cursor of a row\<close>


lemma map_of_obj_set: "map_of (obj_set ob k v) = (map_of ob)(k \<mapsto> v)"
  by (induction ob) auto

lemma obj_get_obj_set_same: "obj_get (obj_set ob k v) k = v"
  by (simp add: obj_get_def map_of_obj_set)

lemma obj_get_obj_set_other: "k' \<noteq> k \<Longrightarrow> obj_get (obj_set ob k v) k' = obj_get ob k'"
  by (simp add: obj_get_def map_of_obj_set)

lemma obj_set_fresh: "k \<notin> fst ` set ob \<Longrightarrow> obj_set ob k v = ob @ [(k, v)]"
  by (induction ob) auto

text \<open>Assigning pairs with fresh, pairwise distinct keys appends them in order.\<close>

lemma obj_assign_distinct:
  "distinct (map fst (target @ src)) \<Longrightarrow> obj_assign target src = target @ src"
proof (induction src arbitrary: target)
  case Nil
  then show ?case by (simp add: obj_assign_def)
next
  case (Cons p src)
  obtain k v where p: "p = (k, v)" by (cases p)
  from Cons.prems p have fresh: "k \<notin> fst ` set target" by auto
  from Cons.prems p have "distinct (map fst ((target @ [(k, v)]) @ src))" by auto
  then have "obj_assign (target @ [(k, v)]) src = (target @ [(k, v)]) @ src"
    by (rule Cons.IH)
  with fresh p show ?case by (simp add: obj_assign_def obj_set_fresh)
qed

lemma input_fields_distinct:
  assumes "distinct (map column_getFieldName (getColumns table))"
    and "''clientMutationId'' \<notin> set (map column_getFieldName (getColumns table))"
  shows "input_fields (createInputType getColumnType icm table) =
      map (\<lambda>column.
             (column_getFieldName column,
              \<lparr> field_type =
                  (if column_hasDefault column then getNullableType (getColumnType column)
                   else getColumnType column),
                field_description = column_description column \<rparr>))
        (getColumns table)
      @ [(''clientMutationId'', icm)]"
proof -
  let ?ps = "map (\<lambda>column.
                   (column_getFieldName column,
                    \<lparr> field_type =
                        (if column_hasDefault column then getNullableType else id)
                          (getColumnType column),
                      field_description = column_description column \<rparr>))
              (getColumns table)"
  have keys: "map fst ?ps = map column_getFieldName (getColumns table)"
    by (simp add: comp_def)
  have d: "distinct (map fst ([] @ ?ps))"
    unfolding append_Nil keys by (rule assms(1))
  have 1: "fromPairs ?ps = ?ps"
    unfolding fromPairs_def using obj_assign_distinct[OF d] by simp
  have 2: "obj_assign [] ?ps = ?ps"
    using obj_assign_distinct[OF d] by simp
  have 3: "''clientMutationId'' \<notin> fst ` set ?ps"
    using assms(2) keys by (metis list.set_map)
  have "input_fields (createInputType getColumnType icm table) = ?ps @ [(''clientMutationId'', icm)]"
    by (simp only: createInputType_def input_type.simps 1 2 obj_set_fresh[OF 3])
  moreover have "?ps =
      map (\<lambda>column.
             (column_getFieldName column,
              \<lparr> field_type =
                  (if column_hasDefault column then getNullableType (getColumnType column)
                   else getColumnType column),
                field_description = column_description column \<rparr>))
        (getColumns table)"
    by (rule map_cong) auto
  ultimately show ?thesis by simp
qed


text \<open>On a row, no read of the primary-key cursor throws.\<close>

lemma primaryKeyCursor_row:
  "primaryKeyCursor table h (Some r) =
     Inr (JSArr (map (\<lambda>column. obj_get (h r) (StrKey (column_name column)))
                     (getPrimaryKeys table)))"
proof -
  have every: "mapE (\<lambda>column. get_property h (Some r) (column_name column)) cols =
      Inr (map (\<lambda>column. obj_get (h r) (StrKey (column_name column))) cols)" for cols
    by (induction cols) (simp_all add: get_property_def)
  show ?thesis by (simp add: primaryKeyCursor_def every)
qed

subsection \<open>The statement text\<close>





lemma insertStatement_fragments:
  "insertStatement table ves =
     [(''insert into '' @ getIdentifier table, []),
      (''('' @ join '', '' (map (\<lambda>(column, v). [CHR 0x22] @ column_name column @ [CHR 0x22]) ves)
         @ '')'', []),
      (''values'', []),
      (''('' @ join '', '' (replicate (length ves) ''$'') @ '')'', map snd ves),
      (''returning *'', [])]"
  by (simp add: insertStatement_def SQLBuilder_add_def SQLBuilder_new_def map_replicate_const
      case_prod_unfold)



section \<open>The claims\<close>

subsection \<open>C1: an insert that returns no row\<close>

text \<open>
  C1. When the database client returns no row, \<^verbatim>\<open>resolveInsert\<close> resolves (it does not
  fail) to a result whose output is \<^verbatim>\<open>null\<close>. The claim goes on: for such a result the
  edge field resolves without throwing. It does not: on the \<^verbatim>\<open>users\<close> table, whose primary
  key is \<^verbatim>\<open>id\<close>, \<^verbatim>\<open>resolveNewEdge\<close> reads a property of \<^verbatim>\<open>null\<close> and throws a
  TypeError, with the \<^verbatim>\<open>orderBy\<close> argument \<^verbatim>\<open>id\<close> and with none.
\<close>

theorem edge_of_null_output_throws:
  "resolveInsert users_table source \<lparr> args_input = alice_input \<rparr> empty_client h =
     Inr (\<lparr> res_output = None, res_clientMutationId = JSUndefined \<rparr>, h)
   \<and> resolveNewEdge users_table h \<lparr> res_output = None, res_clientMutationId = JSUndefined \<rparr>
       \<lparr> args_orderBy = Some ''id'' \<rparr> = Inl TypeError
   \<and> resolveNewEdge users_table h \<lparr> res_output = None, res_clientMutationId = JSUndefined \<rparr>
       \<lparr> args_orderBy = None \<rparr> = Inl TypeError"
  by (simp add: resolveInsert_def empty_client_def alice_input_def obj_get_def object_prototype_names_def
      resolveNewEdge_def get_property_def primaryKeyCursor_def users_table_def)

subsection \<open>C2: the cursor law\<close>

text \<open>
  C2. For every outcome row \<open>r\<close> (the object at address \<open>r\<close> of the store): if an ordering
  selector is supplied (a value of the table's ordering enum, the name of a column, so a
  non-empty string), the cursor of the edge is the value of the row under the selector;
  if no selector is supplied, the cursor is the list of the row's values for the
  primary-key columns of the table, in the declared order of the primary key. In both
  cases the node of the edge is the row.
\<close>

theorem edge_cursor_law:
  "resolveNewEdge table h \<lparr> res_output = Some r, res_clientMutationId = cm \<rparr>
       \<lparr> args_orderBy = Some (c # k) \<rparr>
     = Inr \<lparr> edge_cursor = obj_get (h r) (StrKey (c # k)), edge_node = Some r \<rparr>
   \<and> resolveNewEdge table h \<lparr> res_output = Some r, res_clientMutationId = cm \<rparr>
       \<lparr> args_orderBy = None \<rparr>
     = Inr \<lparr> edge_cursor =
              JSArr (map (\<lambda>pk. obj_get (h r) (StrKey (column_name pk))) (getPrimaryKeys table)),
            edge_node = Some r \<rparr>"
  by (simp add: resolveNewEdge_def primaryKeyCursor_row get_property_def)

text \<open>Scenarios B and C of the specification.\<close>

theorem edge_cursor_law_witness:
  "resolveNewEdge users_table row_heap \<lparr> res_output = Some 0, res_clientMutationId = JSNull \<rparr>
       \<lparr> args_orderBy = Some ''createdAt'' \<rparr>
     = Inr \<lparr> edge_cursor = JSStr ''2020-01-01'', edge_node = Some 0 \<rparr>
   \<and> resolveNewEdge users_table row_heap \<lparr> res_output = Some 0, res_clientMutationId = JSNull \<rparr>
       \<lparr> args_orderBy = None \<rparr>
     = Inr \<lparr> edge_cursor = JSArr [JSNum 5], edge_node = Some 0 \<rparr>"
  using edge_cursor_law[of users_table row_heap 0 JSNull "CHR ''c''" "''reatedAt''"]
  by (simp add: users_table_def id_column_def row_heap_def created_row_def obj_get_def)

subsection \<open>C3: the shape of the statement\<close>




subsection \<open>C4: the filter is truthiness\<close>




subsection \<open>C5: the fields of the input type\<close>

text \<open>
  C5, as stated, on a table with the columns \<^verbatim>\<open>id\<close> and \<^verbatim>\<open>client_mutation_id\<close>: the
  second column's field name is \<^verbatim>\<open>clientMutationId\<close>, the key the object literal writes
  last, so the input type has two fields, not three, and the field of that name is the
  imported \<^verbatim>\<open>inputClientMutationId\<close>, not the column's field.
\<close>

theorem input_fields_collision_counterexample:
  "input_fields (createInputType text_column_type string_mutation_id tokens_table) =
     [(''id'', \<lparr> field_type = GraphQLNamed ''String'', field_description = None \<rparr>),
      (''clientMutationId'', string_mutation_id)]
   \<and> length (getColumns tokens_table) = 2
   \<and> string_mutation_id \<noteq>
       \<lparr> field_type = text_column_type client_mutation_id_column,
         field_description = column_description client_mutation_id_column \<rparr>"
  by (simp add: createInputType_def tokens_table_def fromPairs_def obj_assign_def id_column_def
      client_mutation_id_column_def text_column_type_def string_mutation_id_def)

text \<open>
  C5, amended. For every table whose columns have pairwise distinct field names, none of
  them \<^verbatim>\<open>clientMutationId\<close>, the fields of the generated input type are exactly: for
  each column one field, named by the column's field name, whose type is the column's
  mapped type, passed through \<^verbatim>\<open>getNullableType\<close> if the column has a default and left as
  it is otherwise, and whose description is the column's; and one more field
  \<^verbatim>\<open>clientMutationId\<close>, the imported \<^verbatim>\<open>inputClientMutationId\<close> as it is. The fields are
  compared as multisets: each occurs once, and their order is not part of the statement.
\<close>

theorem input_fields_per_column:
  assumes "distinct (map column_getFieldName (getColumns table))"
    and "''clientMutationId'' \<notin> set (map column_getFieldName (getColumns table))"
  shows "mset (input_fields (createInputType getColumnType inputClientMutationId table)) =
      mset (map (\<lambda>column.
                   (column_getFieldName column,
                    \<lparr> field_type =
                        (if column_hasDefault column then getNullableType (getColumnType column)
                         else getColumnType column),
                      field_description = column_description column \<rparr>))
              (getColumns table))
      + {#(''clientMutationId'', inputClientMutationId)#}"
  by (simp add: input_fields_distinct[OF assms])

theorem input_fields_per_column_witness:
  "distinct (map column_getFieldName (getColumns users_table))
   \<and> ''clientMutationId'' \<notin> set (map column_getFieldName (getColumns users_table))
   \<and> mset (input_fields (createInputType text_column_type string_mutation_id users_table)) =
       {#(''id'', \<lparr> field_type = GraphQLNamed ''String'', field_description = None \<rparr>),
         (''name'', \<lparr> field_type = GraphQLNonNull (GraphQLNamed ''String''),
                      field_description = None \<rparr>),
         (''email'', \<lparr> field_type = GraphQLNonNull (GraphQLNamed ''String''),
                       field_description = None \<rparr>),
         (''clientMutationId'', string_mutation_id)#}"
proof -
  have d: "distinct (map column_getFieldName (getColumns users_table))"
    by (simp add: users_table_def id_column_def name_column_def email_column_def)
  have f: "''clientMutationId'' \<notin> set (map column_getFieldName (getColumns users_table))"
    by (simp add: users_table_def id_column_def name_column_def email_column_def)
  from d f input_fields_per_column[OF d f, of text_column_type string_mutation_id]
  show ?thesis
    by (simp add: users_table_def id_column_def name_column_def email_column_def
        text_column_type_def)
qed

subsection \<open>C6: the client mutation id\<close>

text \<open>
  C6, as stated, on the table with the column \<^verbatim>\<open>client_mutation_id\<close>, whose field name
  is \<^verbatim>\<open>clientMutationId\<close>: the filter reads and tests the property \<^verbatim>\<open>clientMutationId\<close>
  of the input as the value of that column, and the statement binds it. With the value
  \<^verbatim>\<open>m-1\<close> the column is in the statement and the value is its parameter; with the empty
  string the column is left out. The client mutation id is inspected.
\<close>

theorem clientMutationId_inspected_counterexample:
  "insertStatement tokens_table (valueEntries (getColumns tokens_table) token_input) =
     [(''insert into tokens'', []),
      (''('' @ [CHR 0x22] @ ''client_mutation_id'' @ [CHR 0x22] @ '')'', []),
      (''values'', []),
      (''($)'', [JSStr ''m-1'']),
      (''returning *'', [])]
   \<and> insertStatement tokens_table (valueEntries (getColumns tokens_table) token_input_empty) =
     [(''insert into tokens'', []), (''()'', []), (''values'', []), (''()'', []),
      (''returning *'', [])]"
  by (simp add: tokens_table_def token_input_def token_input_empty_def id_column_def
      client_mutation_id_column_def valueEntries_def obj_get_def object_prototype_names_def
      insertStatement_fragments)

text \<open>
  C6, amended. Whenever the database client answers, with a row or without one,
  \<^verbatim>\<open>resolveInsert\<close> resolves to a result whose \<^verbatim>\<open>clientMutationId\<close> is the value of the
  property \<^verbatim>\<open>clientMutationId\<close> of the submitted input, whatever that value is. When no
  column of the table has the field name \<^verbatim>\<open>clientMutationId\<close>, the value is not
  inspected: an invocation whose input differs in that property only hands the same
  statement to the client, and resolves to the same output and the same store, with its
  own value echoed.
\<close>

theorem clientMutationId_echoed:
  assumes "ctx_client ctx (insertStatement table (valueEntries (getColumns table) (args_input args))) h
             = Inr (rows, h1)"
  shows "\<exists>out h2.
           resolveInsert table source args ctx h =
             Inr (\<lparr> res_output = out,
                    res_clientMutationId = obj_get (args_input args) (StrKey ''clientMutationId'') \<rparr>,
                  h2)
         \<and> (''clientMutationId'' \<notin> set (map column_getFieldName (getColumns table))
              \<and> (\<forall>k. k \<noteq> StrKey ''clientMutationId''
                     \<longrightarrow> obj_get (args_input args') k = obj_get (args_input args) k)
            \<longrightarrow> insertStatement table (valueEntries (getColumns table) (args_input args'))
                  = insertStatement table (valueEntries (getColumns table) (args_input args))
                \<and> resolveInsert table source' args' ctx h =
                    Inr (\<lparr> res_output = out,
                           res_clientMutationId =
                             obj_get (args_input args') (StrKey ''clientMutationId'') \<rparr>,
                         h2))"
proof -
  let ?cm = "''clientMutationId''"
  have same: "valueEntries (getColumns table) (args_input args')
      = valueEntries (getColumns table) (args_input args)"
    if fresh: "?cm \<notin> set (map column_getFieldName (getColumns table))"
      and agree: "\<forall>k. k \<noteq> StrKey ?cm \<longrightarrow> obj_get (args_input args') k = obj_get (args_input args) k"
  proof -
    have pointwise: "obj_get (args_input args') (StrKey (column_getFieldName column))
        = obj_get (args_input args) (StrKey (column_getFieldName column))"
      if "column \<in> set (getColumns table)" for column
    proof -
      from that fresh have "column_getFieldName column \<noteq> ?cm"
        by (metis image_eqI list.set_map)
      with agree show ?thesis by simp
    qed
    have "map (\<lambda>column. (column, obj_get (args_input args') (StrKey (column_getFieldName column))))
          (getColumns table)
        = map (\<lambda>column. (column, obj_get (args_input args) (StrKey (column_getFieldName column))))
          (getColumns table)"
      by (rule map_cong[OF refl]) (simp add: pointwise)
    then show ?thesis
      unfolding valueEntries_def by (rule arg_cong)
  qed
  show ?thesis
  proof (cases rows)
    case Nil
    with assms same show ?thesis by (auto simp add: resolveInsert_def)
  next
    case (Cons row rest)
    with assms same show ?thesis by (auto simp add: resolveInsert_def)
  qed
qed

text \<open>
  Two inputs for the \<^verbatim>\<open>users\<close> table that differ in the client mutation id only, with
  a client that returns no row and with one that returns a row.
\<close>

theorem clientMutationId_echoed_witness:
  "''clientMutationId'' \<notin> set (map column_getFieldName (getColumns users_table))
   \<and> (\<exists>out h2.
         resolveInsert users_table () \<lparr> args_input = bob_input \<rparr> empty_client row_heap =
           Inr (\<lparr> res_output = out, res_clientMutationId = JSStr ''m-1'' \<rparr>, h2)
       \<and> resolveInsert users_table () \<lparr> args_input = bob_input_again \<rparr> empty_client row_heap =
           Inr (\<lparr> res_output = out, res_clientMutationId = JSStr ''m-2'' \<rparr>, h2))
   \<and> (\<exists>out h2.
         resolveInsert users_table () \<lparr> args_input = bob_input \<rparr> one_row_client row_heap =
           Inr (\<lparr> res_output = out, res_clientMutationId = JSStr ''m-1'' \<rparr>, h2)
       \<and> resolveInsert users_table () \<lparr> args_input = bob_input_again \<rparr> one_row_client row_heap =
           Inr (\<lparr> res_output = out, res_clientMutationId = JSStr ''m-2'' \<rparr>, h2))"
proof -
  have fresh: "''clientMutationId'' \<notin> set (map column_getFieldName (getColumns users_table))"
    by (simp add: users_table_def id_column_def name_column_def email_column_def)
  have agree: "\<forall>k. k \<noteq> StrKey ''clientMutationId''
      \<longrightarrow> obj_get (args_input \<lparr> args_input = bob_input_again \<rparr>) k
          = obj_get (args_input \<lparr> args_input = bob_input \<rparr>) k"
    by (simp add: obj_get_def bob_input_def bob_input_again_def)
  have cm: "obj_get bob_input (StrKey ''clientMutationId'') = JSStr ''m-1''"
    "obj_get bob_input_again (StrKey ''clientMutationId'') = JSStr ''m-2''"
    by (simp_all add: obj_get_def bob_input_def bob_input_again_def)
  have none: "ctx_client empty_client
      (insertStatement users_table
         (valueEntries (getColumns users_table) (args_input \<lparr> args_input = bob_input \<rparr>)))
      row_heap = Inr ([], row_heap)"
    by (simp add: empty_client_def)
  have one: "ctx_client one_row_client
      (insertStatement users_table
         (valueEntries (getColumns users_table) (args_input \<lparr> args_input = bob_input \<rparr>)))
      row_heap = Inr ([0], row_heap)"
    by (simp add: one_row_client_def)
  from clientMutationId_echoed[OF none, of "()" "\<lparr> args_input = bob_input_again \<rparr>" "()"]
    clientMutationId_echoed[OF one, of "()" "\<lparr> args_input = bob_input_again \<rparr>" "()"]
    fresh agree cm
  show ?thesis by (simp del: ex_simps) blast
qed

subsection \<open>C7: the names of the generated types\<close>

text \<open>
  C7. The input type of a table with type name \<open>T\<close> is named \<^verbatim>\<open>Insert<T>Input\<close> and its
  payload type \<^verbatim>\<open>Insert<T>Payload\<close>; so two builds over tables with the same type name
  (the same table in particular) give the same names, whatever else the builds are given.
\<close>

theorem type_names_from_type_name:
  "input_name (createInputType getColumnType icm table) = ''Insert'' @ getTypeName table @ ''Input''
   \<and> payload_name (createPayloadType payloadFields table)
       = ''Insert'' @ getTypeName table @ ''Payload''
   \<and> (getTypeName table = getTypeName table' \<longrightarrow>
        input_name (createInputType getColumnType icm table)
          = input_name (createInputType getColumnType' icm' table')
        \<and> payload_name (createPayloadType payloadFields table)
          = payload_name (createPayloadType payloadFields' table'))"
  by (simp add: createInputType_def createPayloadType_def)

theorem type_names_from_type_name_witness:
  "getTypeName users_table = getTypeName (users_table\<lparr> getColumns := [] \<rparr>)
   \<and> input_name (createInputType text_column_type string_mutation_id users_table)
       = ''InsertUserInput''
   \<and> input_name (createInputType (\<lambda>column. GraphQLNamed ''Int'') string_mutation_id
         (users_table\<lparr> getColumns := [] \<rparr>)) = ''InsertUserInput''
   \<and> payload_name (createPayloadType ([] :: (string \<times> unit) list) users_table)
       = ''InsertUserPayload''
   \<and> payload_name (createPayloadType [(''query'', ())] (users_table\<lparr> getColumns := [] \<rparr>))
       = ''InsertUserPayload''"
  using type_names_from_type_name[of text_column_type string_mutation_id users_table
      "[] :: (string \<times> unit) list" "users_table\<lparr> getColumns := [] \<rparr>"
      "\<lambda>column. GraphQLNamed ''Int''" string_mutation_id "[(''query'', ())]"]
  by (auto simp add: users_table_def)

subsection \<open>C8: the primary-key cursor reads SQL names\<close>

text \<open>
  C8. With no ordering selector, the cursor lists the values of the row under the SQL names
  (\<^verbatim>\<open>column.name\<close>) of the primary-key columns, in their order, whatever the field names
  of these columns are; with an ordering selector (a non-empty string), the cursor is the
  value of the row under the selector itself.
\<close>

theorem primary_key_cursor_reads_sql_names:
  "resolveNewEdge table h \<lparr> res_output = Some r, res_clientMutationId = cm \<rparr>
       \<lparr> args_orderBy = None \<rparr>
     = Inr \<lparr> edge_cursor =
              JSArr (map (\<lambda>sql_name. obj_get (h r) (StrKey sql_name))
                       (map column_name (getPrimaryKeys table))),
            edge_node = Some r \<rparr>
   \<and> resolveNewEdge table h \<lparr> res_output = Some r, res_clientMutationId = cm \<rparr>
       \<lparr> args_orderBy = Some (c # k) \<rparr>
     = Inr \<lparr> edge_cursor = obj_get (h r) (StrKey (c # k)), edge_node = Some r \<rparr>"
  by (simp add: resolveNewEdge_def primaryKeyCursor_row get_property_def comp_def)

text \<open>
  On the table whose primary-key column has the SQL name \<^verbatim>\<open>post_id\<close> and the field name
  \<^verbatim>\<open>postId\<close>, the cursor of the row \<^verbatim>\<open>{post_id: 7}\<close> is \<^verbatim>\<open>[7]\<close>; under the field name
  the row has no value.
\<close>

theorem primary_key_cursor_reads_sql_names_witness:
  "resolveNewEdge posts_table post_heap \<lparr> res_output = Some 0, res_clientMutationId = JSNull \<rparr>
       \<lparr> args_orderBy = None \<rparr>
     = Inr \<lparr> edge_cursor = JSArr [JSNum 7], edge_node = Some 0 \<rparr>
   \<and> map (\<lambda>field_name. obj_get (post_heap 0) (StrKey field_name))
       (map column_getFieldName (getPrimaryKeys posts_table)) = [JSUndefined]
   \<and> resolveNewEdge posts_table post_heap \<lparr> res_output = Some 0, res_clientMutationId = JSNull \<rparr>
       \<lparr> args_orderBy = Some ''post_id'' \<rparr>
     = Inr \<lparr> edge_cursor = JSNum 7, edge_node = Some 0 \<rparr>"
  using primary_key_cursor_reads_sql_names[of posts_table post_heap 0 JSNull "CHR ''p''" "''ost_id''"]
  by (simp add: posts_table_def post_id_column_def post_heap_def obj_get_def object_prototype_names_def)

subsection \<open>C9: the output is the client's row, tagged\<close>

text \<open>
  C9. When the database client returns at least one row, \<^verbatim>\<open>resolveInsert\<close> resolves, and
  its output is the first row the client returned, the same object (the same address of
  the store); in the store it leaves, the property \<^verbatim>\<open>$$rowTable\<close> of that object is the
  table, every other property of it reads as the client left it, and every other object
  is as the client left it.
\<close>

theorem output_is_tagged_row:
  assumes "ctx_client ctx (insertStatement table (valueEntries (getColumns table) (args_input args))) h
             = Inr (row # rows, h1)"
  shows "\<exists>h2. resolveInsert table source args ctx h =
           Inr (\<lparr> res_output = Some row,
                  res_clientMutationId = obj_get (args_input args) (StrKey ''clientMutationId'') \<rparr>,
                h2)
         \<and> obj_get (h2 row) RowTableSymbol = JSTable table
         \<and> (\<forall>k. k \<noteq> RowTableSymbol \<longrightarrow> obj_get (h2 row) k = obj_get (h1 row) k)
         \<and> (\<forall>a. a \<noteq> row \<longrightarrow> h2 a = h1 a)"
  using assms by (simp add: resolveInsert_def obj_get_obj_set_same obj_get_obj_set_other)

theorem output_is_tagged_row_witness:
  "resolveInsert users_table () \<lparr> args_input = bob_input \<rparr> one_row_client row_heap =
     Inr (\<lparr> res_output = Some 0, res_clientMutationId = JSStr ''m-1'' \<rparr>,
          row_heap(0 := created_row @ [(RowTableSymbol, JSTable users_table)]))
   \<and> obj_get (created_row @ [(RowTableSymbol, JSTable users_table)]) (StrKey ''id'') = JSNum 5"
  using output_is_tagged_row[of one_row_client users_table "\<lparr> args_input = bob_input \<rparr>"
      row_heap 0 "[]" row_heap "()"]
  by (simp add: one_row_client_def resolveInsert_def bob_input_def obj_get_def object_prototype_names_def row_heap_def
      created_row_def)

subsection \<open>C10: what the result depends on\<close>

text \<open>
  C10. Two invocations of \<^verbatim>\<open>resolveInsert\<close> for a table, with the same input and with
  clients that answer the statement of that input alike, resolve alike (or fail alike),
  whatever the source values, the other arguments and the other fields of the contexts
  are.
\<close>

theorem result_depends_on_input_and_client:
  assumes "args_input args = args_input args'"
    and "ctx_client ctx (insertStatement table (valueEntries (getColumns table) (args_input args))) h
           = ctx_client ctx' (insertStatement table (valueEntries (getColumns table) (args_input args))) h'"
  shows "resolveInsert table source args ctx h = resolveInsert table source' args' ctx' h'"
  using assms by (simp add: resolveInsert_def)

theorem result_depends_on_input_and_client_witness:
  "resolveInsert users_table (1 :: nat) \<lparr> args_input = bob_input, \<dots> = True \<rparr>
       \<lparr> ctx_client = (\<lambda>q h. Inr ([0], h)), \<dots> = ''request A'' \<rparr> row_heap
     = resolveInsert users_table ''root'' \<lparr> args_input = bob_input \<rparr> one_row_client row_heap"
  using result_depends_on_input_and_client[of "\<lparr> args_input = bob_input, \<dots> = True \<rparr>"
      "\<lparr> args_input = bob_input \<rparr>"
      "\<lparr> ctx_client = (\<lambda>q h. Inr ([0], h)), \<dots> = ''request A'' \<rparr>" users_table row_heap
      one_row_client row_heap "1 :: nat" "''root''"]
  by (simp add: one_row_client_def)

end
